theory Spec2Isabelle
  imports Main
begin

section \<open>The zeoran CIF writer: \<open>print_structure\<close> of \<open>output.cpp\<close>\<close>

text \<open>
  The writer walks a fixed atom array and a vector of substitution indices and renders a
  CIF document through a C++ output stream. The embedding keeps the stream as the source
  uses it: a value with a buffer and the formatting state (\<open>width\<close>, \<open>precision\<close>,
  \<open>floatfield\<close>) that \<open>setw\<close>, \<open>setprecision\<close> and \<open>fixed\<close> change, threaded through
  every insertion.

  What the C++ platform supplies and the repository does not define is a parameter:
  the type \<open>'d\<close> of \<open>double\<close> values, their multiplication, and the text that the
  library's number formatter produces for a \<open>double\<close> under a given notation and precision.
\<close>

subsection \<open>Data of \<open>global.h\<close>\<close>

text \<open>
  \<open>struct atom\<close>: the two character arrays \<open>id\<close> and \<open>at\<close> hold NUL-terminated strings and
  are modelled by their contents; the fields carry the prefix \<open>atom_\<close>.
\<close>

record 'd atom =
  atom_id :: string
  atom_at :: string
  atom_x :: 'd
  atom_y :: 'd
  atom_z :: 'd
  atom_q :: 'd

text \<open>
  The process-wide variables of \<open>globals.cpp\<close>. The cell lengths and angles carry the
  prefix \<open>cell_\<close>.
\<close>

record 'd globals =
  Natoms :: int
  Tatoms :: int
  cell_a :: 'd
  cell_b :: 'd
  cell_c :: 'd
  cell_alpha :: 'd
  cell_beta :: 'd
  cell_gama :: 'd
  setting :: string
  Neqsteps :: int
  Nvisits :: int

subsection \<open>The platform\<close>

datatype floatfield = ff_default | ff_fixed | ff_scientific

record 'd platform =
  dmul :: "'d \<Rightarrow> 'd \<Rightarrow> 'd"
  num_put :: "floatfield \<Rightarrow> nat \<Rightarrow> 'd \<Rightarrow> string"

subsection \<open>Output streams\<close>

record ostream =
  buf :: string
  width :: nat
  precision :: nat
  floatfmt :: floatfield

text \<open>A default-constructed stream: nothing written, no field width, precision 6.\<close>

definition new_stream :: ostream where
  "new_stream = \<lparr>buf = [], width = 0, precision = 6, floatfmt = ff_default\<rparr>"

text \<open>
  A formatted insertion pads its text on the left with blanks up to the field width (the
  default adjustment and fill character, which the source never changes) and resets the
  width to 0.
\<close>

definition pad :: "nat \<Rightarrow> string \<Rightarrow> string" where
  "pad w s = replicate (w - length s) CHR '' '' @ s"

definition put_chars :: "string \<Rightarrow> ostream \<Rightarrow> ostream" where
  "put_chars s os = os\<lparr>buf := buf os @ pad (width os) s, width := 0\<rparr>"

definition digit_char :: "nat \<Rightarrow> char" where
  "digit_char n = ''0123456789'' ! n"

function dec :: "nat \<Rightarrow> string" where
  "dec n = (if n < 10 then [digit_char n] else dec (n div 10) @ [digit_char (n mod 10)])"
  by pat_completeness auto
termination
  by (relation "measure (\<lambda>n. n)") auto

declare dec.simps [simp del]

definition to_string :: "int \<Rightarrow> string" where
  "to_string n = (if n < 0 then CHR ''-'' # dec (nat (- n)) else dec (nat n))"

definition put_int :: "int \<Rightarrow> ostream \<Rightarrow> ostream" where
  "put_int n os = put_chars (to_string n) os"

definition put_double :: "'d platform \<Rightarrow> 'd \<Rightarrow> ostream \<Rightarrow> ostream" where
  "put_double P d os =
     os\<lparr>buf := buf os @ pad (width os) (num_put P (floatfmt os) (precision os) d), width := 0\<rparr>"

text \<open>\<open>endl\<close> writes a newline with the unformatted \<open>put\<close>: the field width plays no part.\<close>

definition endl :: "ostream \<Rightarrow> ostream" where
  "endl os = os\<lparr>buf := buf os @ [CHR 0x0A]\<rparr>"

definition setw :: "nat \<Rightarrow> ostream \<Rightarrow> ostream" where
  "setw n os = os\<lparr>width := n\<rparr>"

definition setprecision :: "nat \<Rightarrow> ostream \<Rightarrow> ostream" where
  "setprecision n os = os\<lparr>precision := n\<rparr>"

definition fixed :: "ostream \<Rightarrow> ostream" where
  "fixed os = os\<lparr>floatfmt := ff_fixed\<rparr>"

text \<open>
  A statement \<open>s << x\<^sub>1 << \<dots> << x\<^sub>n;\<close> is the list of its insertions and manipulators,
  applied to the stream from left to right.
\<close>

definition run :: "('s \<Rightarrow> 's) list \<Rightarrow> 's \<Rightarrow> 's" where
  "run ops s = fold (\<lambda>op. op) ops s"

text \<open>\<open>c_str\<close>: a C string read from a \<open>std::string\<close> ends at the first NUL.\<close>

definition c_str :: "string \<Rightarrow> string" where
  "c_str s = takeWhile (\<lambda>ch. ch \<noteq> CHR 0x00) s"

subsection \<open>The process environment\<close>

text \<open>
  What \<open>print_structure\<close> reads from and writes to outside its arguments: the environment
  variables, the date that \<open>time\<close>, \<open>localtime\<close> and \<open>strftime\<close> with \<open>%Y-%m-%d\<close> deliver,
  the file system (which paths can be opened for writing, and the contents of the files)
  and the diagnostic stream \<open>cerr\<close>. The record also holds the other output streams of
  the process (\<open>cout\<close>, \<open>clog\<close> and any stream object the caller has), numbered in some
  way: the function names none of them. C++ keeps precision and notation in each stream
  object; there is no process-wide formatting state besides.
\<close>

record sys =
  getenv :: "string \<Rightarrow> string option"
  date_buffer :: string
  openable :: "string \<Rightarrow> bool"
  files :: "string \<Rightarrow> string option"
  cerr :: ostream
  streams :: "nat \<Rightarrow> ostream"

text \<open>
  How a call ends: it returns, the process exits with a status, or the call reads past the
  end of the atom array (\<open>Natoms\<close> larger than the array), which C++ leaves undefined.
\<close>

datatype outcome = Returned sys | Exited int sys | Undefined


subsection \<open>\<open>print_structure\<close>\<close>

text \<open>Line 19: the name of the output file.\<close>

definition fname :: "string \<Rightarrow> string \<Rightarrow> string \<Rightarrow> int \<Rightarrow> string" where
  "fname out_name name_zeo name_alg struc =
     out_name @ ''/'' @ name_zeo @ ''_'' @ name_alg @ ''_'' @ to_string struc @ ''.cif''"

text \<open>Lines 38 to 44: the user name.\<close>

definition username :: "sys \<Rightarrow> string" where
  "username w =
     (case getenv w ''USER'' of
        Some u \<Rightarrow> u
      | None \<Rightarrow> (case getenv w ''USERNAME'' of Some u \<Rightarrow> u | None \<Rightarrow> ''unknown_user''))"

text \<open>Lines 46 to 73: the header block.\<close>

definition put_header :: "'d platform \<Rightarrow> 'd globals \<Rightarrow> sys \<Rightarrow> string \<Rightarrow> ostream \<Rightarrow> ostream" where
  "put_header P g w name_zeo =
     run [put_chars ''data_'', put_chars name_zeo, endl, endl,
          put_chars ''_audit_creation_method RASPA-1.0'', endl,
          put_chars ''_audit_creation_date '', put_chars (date_buffer w), endl,
          put_chars (''_audit_author_name '' @ [CHR 0x27]), put_chars (username w),
            put_chars [CHR 0x27], endl, endl,
          put_chars ''_cell_length_a    '', put_double P (cell_a g), endl,
          put_chars ''_cell_length_b    '', put_double P (cell_b g), endl,
          put_chars ''_cell_length_c    '', put_double P (cell_c g), endl,
          put_chars ''_cell_angle_alpha '', put_double P (cell_alpha g), endl,
          put_chars ''_cell_angle_beta  '', put_double P (cell_beta g), endl,
          put_chars ''_cell_angle_gamma '', put_double P (cell_gama g), endl,
          put_chars ''_cell_volume      '',
            put_double P (dmul P (dmul P (cell_a g) (cell_b g)) (cell_c g)), endl, endl,
          put_chars ''_symmetry_cell_setting          '', put_chars (setting g), endl,
          put_chars (''_symmetry_space_group_name_Hall '' @ [CHR 0x27] @ ''P 1'' @ [CHR 0x27]), endl,
          put_chars (''_symmetry_space_group_name_H-M  '' @ [CHR 0x27] @ ''P 1'' @ [CHR 0x27]), endl,
          put_chars ''_symmetry_Int_Tables_number     1'', endl,
          put_chars (''_symmetry_equiv_pos_as_xyz '' @ [CHR 0x27] @ ''x,y,z'' @ [CHR 0x27]), endl, endl,
          put_chars ''loop_'', endl,
          put_chars ''_atom_site_label'', endl,
          put_chars ''_atom_site_type_symbol'', endl,
          put_chars ''_atom_site_fract_x'', endl,
          put_chars ''_atom_site_fract_y'', endl,
          put_chars ''_atom_site_fract_z'', endl,
          put_chars ''_atom_site_charge'', endl]"

text \<open>Line 85: the row of a site relabelled as aluminium.\<close>

definition put_al_row :: "'d platform \<Rightarrow> int \<Rightarrow> 'd atom \<Rightarrow> ostream \<Rightarrow> ostream" where
  "put_al_row P alcount at =
     run [put_chars ''Al'', put_int alcount, put_chars ''        Al     '',
          put_double P (atom_x at), setw 10, put_double P (atom_y at),
          setw 10, put_double P (atom_z at), setw 10, put_double P (atom_q at), endl]"

text \<open>Lines 92 and 95: the row of an atom under its own label and type.\<close>

definition put_atom_row :: "'d platform \<Rightarrow> 'd atom \<Rightarrow> ostream \<Rightarrow> ostream" where
  "put_atom_row P at =
     run [put_chars (atom_at at), setw 10, put_chars (atom_id at),
          setw 10, put_double P (atom_x at), setw 10, put_double P (atom_y at),
          setw 10, put_double P (atom_z at), setw 10, put_double P (atom_q at), endl]"

text \<open>
  Lines 82 to 89: the scan of \<open>Als\<close> for the atom with Si counter \<open>Tat\<close>, over the elements
  not yet visited; the state is the stream, \<open>ctl\<close> and \<open>alcount\<close>. The loop runs while
  elements remain and \<open>ctl\<close> is 1.
\<close>

fun scan_Als :: "'d platform \<Rightarrow> 'd atom \<Rightarrow> int \<Rightarrow> int list \<Rightarrow> ostream \<times> int \<times> int
    \<Rightarrow> ostream \<times> int \<times> int" where
  "scan_Als P at Tat [] st = st"
| "scan_Als P at Tat (v # vs) (os, ctl, alcount) =
     (if ctl = 1 then
        (if Tat = v then scan_Als P at Tat vs (put_al_row P alcount at os, 0, alcount + 1)
         else scan_Als P at Tat vs (os, ctl, alcount))
      else (os, ctl, alcount))"

text \<open>
  Lines 78 to 97: the loop over the atoms still to visit; the state is the stream, \<open>Tat\<close>
  and \<open>alcount\<close>.
\<close>

fun atoms_loop :: "'d platform \<Rightarrow> int list \<Rightarrow> 'd atom list \<Rightarrow> ostream \<times> int \<times> int
    \<Rightarrow> ostream \<times> int \<times> int" where
  "atoms_loop P Als [] st = st"
| "atoms_loop P Als (at # rest) (os, Tat, alcount) =
     (if atom_id at = ''Si'' then
        (case scan_Als P at (Tat + 1) Als (os, 1, alcount) of
           (os', ctl, alcount') \<Rightarrow>
             atoms_loop P Als rest
               (if ctl = 1 then put_atom_row P at os' else os', Tat + 1, alcount'))
      else atoms_loop P Als rest (put_atom_row P at os, Tat, alcount))"

text \<open>Lines 27 to 97: everything written to \<open>fout\<close>, with the final \<open>Tat\<close> and \<open>alcount\<close>.\<close>

definition write_cif :: "'d platform \<Rightarrow> 'd globals \<Rightarrow> sys \<Rightarrow> 'd atom list \<Rightarrow> int list \<Rightarrow> string
    \<Rightarrow> ostream \<Rightarrow> ostream \<times> int \<times> int" where
  "write_cif P g w list Als name_zeo fout =
     atoms_loop P Als (take (nat (Natoms g)) list)
       (put_header P g w name_zeo (run [setprecision 3, fixed] fout), - 1, 1)"

text \<open>
  The whole function. The file is opened under the C string of \<open>fname\<close>; when that fails the
  diagnostic goes to \<open>cerr\<close> and the process exits with status 1. Otherwise the loop reads
  \<open>list[0]\<close> to \<open>list[Natoms - 1]\<close>, and closing the stream leaves its buffer as the file.
\<close>

definition print_structure :: "'d platform \<Rightarrow> 'd globals \<Rightarrow> sys \<Rightarrow> 'd atom list \<Rightarrow> int list \<Rightarrow> int
    \<Rightarrow> string \<Rightarrow> string \<Rightarrow> string \<Rightarrow> outcome" where
  "print_structure P g w list Als struc name_zeo name_alg out_name =
     (let path = c_str (fname out_name name_zeo name_alg struc)
      in if \<not> openable w path then
           Exited 1 (w\<lparr>cerr := run [put_chars ''unable to open file '', put_chars path,
                                    put_chars '' for writing'', endl] (cerr w)\<rparr>)
         else if int (length list) < Natoms g then Undefined
         else Returned (w\<lparr>files := (files w)(path \<mapsto>
                  buf (fst (write_cif P g w list Als name_zeo new_stream)))\<rparr>))"

subsection \<open>The document as a list of records\<close>

text \<open>
  Every statement of the source that writes to the file ends with \<open>endl\<close>, so the file is a
  sequence of newline-terminated records. The functions below give these records as
  plain text; \<open>fmt\<close> stands for the rendering of a \<open>double\<close> and \<open>mul\<close> for the product of
  two. The lemmas of the next section derive them from the stream operations above.
\<close>

definition unlines :: "string list \<Rightarrow> string" where
  "unlines ls = concat (map (\<lambda>l. l @ [CHR 0x0A]) ls)"

definition header_lines :: "('d \<Rightarrow> string) \<Rightarrow> ('d \<Rightarrow> 'd \<Rightarrow> 'd) \<Rightarrow> 'd globals \<Rightarrow> string \<Rightarrow> string \<Rightarrow> string
    \<Rightarrow> string list" where
  "header_lines fmt mul g date user name_zeo =
     [''data_'' @ name_zeo,
      [],
      ''_audit_creation_method RASPA-1.0'',
      ''_audit_creation_date '' @ date,
      ''_audit_author_name '' @ [CHR 0x27] @ user @ [CHR 0x27],
      [],
      ''_cell_length_a    '' @ fmt (cell_a g),
      ''_cell_length_b    '' @ fmt (cell_b g),
      ''_cell_length_c    '' @ fmt (cell_c g),
      ''_cell_angle_alpha '' @ fmt (cell_alpha g),
      ''_cell_angle_beta  '' @ fmt (cell_beta g),
      ''_cell_angle_gamma '' @ fmt (cell_gama g),
      ''_cell_volume      '' @ fmt (mul (mul (cell_a g) (cell_b g)) (cell_c g)),
      [],
      ''_symmetry_cell_setting          '' @ setting g,
      ''_symmetry_space_group_name_Hall '' @ [CHR 0x27] @ ''P 1'' @ [CHR 0x27],
      ''_symmetry_space_group_name_H-M  '' @ [CHR 0x27] @ ''P 1'' @ [CHR 0x27],
      ''_symmetry_Int_Tables_number     1'',
      ''_symmetry_equiv_pos_as_xyz '' @ [CHR 0x27] @ ''x,y,z'' @ [CHR 0x27],
      [],
      ''loop_'',
      ''_atom_site_label'',
      ''_atom_site_type_symbol'',
      ''_atom_site_fract_x'',
      ''_atom_site_fract_y'',
      ''_atom_site_fract_z'',
      ''_atom_site_charge'']"

definition atom_row :: "('d \<Rightarrow> string) \<Rightarrow> 'd atom \<Rightarrow> string" where
  "atom_row fmt at =
     atom_at at @ pad 10 (atom_id at) @ pad 10 (fmt (atom_x at)) @ pad 10 (fmt (atom_y at))
       @ pad 10 (fmt (atom_z at)) @ pad 10 (fmt (atom_q at))"

definition al_row :: "('d \<Rightarrow> string) \<Rightarrow> string \<Rightarrow> 'd atom \<Rightarrow> string" where
  "al_row fmt label at =
     label @ ''        Al     '' @ fmt (atom_x at) @ pad 10 (fmt (atom_y at))
       @ pad 10 (fmt (atom_z at)) @ pad 10 (fmt (atom_q at))"

text \<open>
  The rows of the atoms still to visit, when the Si counter stands at \<open>Tat\<close> and the
  aluminium counter at \<open>alcount\<close>.
\<close>

fun atom_rows :: "('d \<Rightarrow> string) \<Rightarrow> int list \<Rightarrow> int \<Rightarrow> int \<Rightarrow> 'd atom list \<Rightarrow> string list" where
  "atom_rows fmt Als Tat alcount [] = []"
| "atom_rows fmt Als Tat alcount (at # rest) =
     (if atom_id at = ''Si'' then
        (if Tat + 1 \<in> set Als
         then al_row fmt (''Al'' @ to_string alcount) at # atom_rows fmt Als (Tat + 1) (alcount + 1) rest
         else atom_row fmt at # atom_rows fmt Als (Tat + 1) alcount rest)
      else atom_row fmt at # atom_rows fmt Als Tat alcount rest)"

definition count_Si :: "'d atom list \<Rightarrow> nat" where
  "count_Si list = length (filter (\<lambda>at. atom_id at = ''Si'') list)"

text \<open>A stream as \<open>fout\<close> is after line 27 and between any two statements that follow.\<close>

definition ready :: "ostream \<Rightarrow> bool" where
  "ready os \<longleftrightarrow> width os = 0 \<and> precision os = 3 \<and> floatfmt os = ff_fixed"


subsection \<open>Fixed notation with three decimals\<close>




subsection \<open>Sample inputs\<close>

text \<open>
  A platform to run the model on: decimal numbers with three fractional digits, stored as
  a count of thousandths; the product truncates, and the formatter prints \<open>prec\<close> fractional
  digits in fixed notation and drops a zero fraction otherwise.
\<close>

definition milli_put :: "floatfield \<Rightarrow> nat \<Rightarrow> int \<Rightarrow> string" where
  "milli_put ff prec n =
     (let m = nat \<bar>n\<bar>;
          fp = [digit_char (m div 100 mod 10), digit_char (m div 10 mod 10), digit_char (m mod 10)]
      in (if n < 0 then ''-'' else []) @ dec (m div 1000) @
         (if ff = ff_fixed then ''.'' @ take prec (fp @ replicate (prec - 3) CHR ''0'')
          else if m mod 1000 = 0 then [] else ''.'' @ fp))"

definition milli :: "int platform" where
  "milli = \<lparr>dmul = (\<lambda>x y. x * y div 1000), num_put = milli_put\<rparr>"

definition ex_globals :: "int globals" where
  "ex_globals = \<lparr>Natoms = 4, Tatoms = 3, cell_a = 20022, cell_b = 19899, cell_c = 13383,
     cell_alpha = 90000, cell_beta = 90000, cell_gama = 120000, setting = ''triclinic'',
     Neqsteps = 100, Nvisits = 20\<rparr>"

definition ex_atoms :: "int atom list" where
  "ex_atoms =
     [\<lparr>atom_id = ''Si'', atom_at = ''T1'', atom_x = 100, atom_y = 200, atom_z = 300, atom_q = 1200\<rparr>,
      \<lparr>atom_id = ''O'', atom_at = ''O1'', atom_x = 400, atom_y = 500, atom_z = 600, atom_q = - 800\<rparr>,
      \<lparr>atom_id = ''Si'', atom_at = ''T2'', atom_x = 700, atom_y = 800, atom_z = 900, atom_q = 1200\<rparr>,
      \<lparr>atom_id = ''Si'', atom_at = ''T3'', atom_x = 250, atom_y = 750, atom_z = 500, atom_q = 1200\<rparr>]"

text \<open>
  An environment without \<open>USER\<close> and \<open>USERNAME\<close>, in which only the directory \<open>out\<close> exists.
\<close>

definition ex_sys :: sys where
  "ex_sys = \<lparr>getenv = (\<lambda>v. None), date_buffer = ''2024-01-15'',
     openable = (\<lambda>p. take 4 p = ''out/''), files = (\<lambda>p. None), cerr = new_stream,
     streams = (\<lambda>n. new_stream)\<rparr>"








section \<open>The stream operations produce the records\<close>

lemmas stream_ops = run_def put_chars_def put_int_def put_double_def endl_def setw_def
  setprecision_def fixed_def

lemmas ex_defs = ex_globals_def ex_atoms_def ex_sys_def milli_def fname_def c_str_def
  to_string_def dec.simps digit_char_def

lemma replicate_numeral: "replicate (numeral k) x = x # replicate (pred_numeral k) x"
  by (simp add: numeral_eq_Suc)

text \<open>A name without NUL is its own C string.\<close>

lemma c_str_no_NUL: "CHR 0x00 \<notin> set s \<Longrightarrow> c_str s = s"
  by (auto simp: c_str_def takeWhile_eq_all_conv)

lemma pad_0 [simp]: "pad 0 s = s"
  by (simp add: pad_def)

lemma ready_buf [simp]: "ready (os\<lparr>buf := b\<rparr>) = ready os"
  by (simp add: ready_def)

lemma unlines_Nil [simp]: "unlines [] = []"
  by (simp add: unlines_def)

lemma unlines_Cons [simp]: "unlines (x # xs) = x @ CHR 0x0A # unlines xs"
  by (simp add: unlines_def)

lemma unlines_append [simp]: "unlines (xs @ ys) = unlines xs @ unlines ys"
  by (simp add: unlines_def)

lemma put_atom_row_ready:
  assumes "ready os"
  shows "put_atom_row P at os = os\<lparr>buf := buf os @ unlines [atom_row (num_put P ff_fixed 3) at]\<rparr>"
  using assms by (simp add: ready_def put_atom_row_def atom_row_def stream_ops)

lemma put_al_row_ready:
  assumes "ready os"
  shows "put_al_row P n at os =
     os\<lparr>buf := buf os @ unlines [al_row (num_put P ff_fixed 3) (''Al'' @ to_string n) at]\<rparr>"
  using assms by (simp add: ready_def put_al_row_def al_row_def stream_ops)

text \<open>
  The scan of \<open>Als\<close> comes to one of two ends: the counter is an element of \<open>Als\<close>, and one
  aluminium row is written, \<open>ctl\<close> cleared and \<open>alcount\<close> advanced by one; or nothing changes.
\<close>

lemma scan_Als_eq:
  "scan_Als P at Tat Als (os, ctl, alcount) =
     (if ctl = 1 \<and> Tat \<in> set Als then (put_al_row P alcount at os, 0, alcount + 1)
      else (os, ctl, alcount))"
  by (induction Als arbitrary: os ctl alcount) auto

lemma atoms_loop_buf:
  assumes "ready os"
  shows "fst (atoms_loop P Als list (os, Tat, alcount)) =
           os\<lparr>buf := buf os @ unlines (atom_rows (num_put P ff_fixed 3) Als Tat alcount list)\<rparr>"
  using assms
proof (induction list arbitrary: os Tat alcount)
  case Nil
  then show ?case by simp
next
  case (Cons at rest)
  then show ?case
    by (simp add: scan_Als_eq put_atom_row_ready put_al_row_ready)
qed

lemma length_filter_upt_Suc:
  "length (filter Q [0..<Suc n]) = (if Q 0 then 1 else 0) + length (filter (\<lambda>k. Q (Suc k)) [0..<n])"
proof -
  have "[0..<Suc n] = 0 # map Suc [0..<n]"
    by (simp add: upt_conv_Cons map_Suc_upt del: upt_Suc)
  then show ?thesis
    by (simp add: filter_map comp_def del: upt_Suc)
qed

lemma atoms_loop_Tat:
  "fst (snd (atoms_loop P Als list (os, Tat, alcount))) = Tat + int (count_Si list)"
  by (induction list arbitrary: os Tat alcount) (simp_all add: scan_Als_eq count_Si_def)

lemma atoms_loop_alcount:
  "snd (snd (atoms_loop P Als list (os, Tat, alcount))) =
     alcount + int (length (filter (\<lambda>k. Tat + 1 + int k \<in> set Als) [0..<count_Si list]))"
proof (induction list arbitrary: os Tat alcount)
  case Nil
  then show ?case by (simp add: count_Si_def)
next
  case (Cons at rest)
  have shift: "\<And>k. Tat + 1 + int (Suc k) = Tat + 1 + 1 + int k"
    by simp
  show ?case
  proof (cases "atom_id at = ''Si''")
    case True
    then have n: "count_Si (at # rest) = Suc (count_Si rest)"
      by (simp add: count_Si_def)
    show ?thesis
      unfolding n length_filter_upt_Suc shift
      using True by (simp add: scan_Als_eq Cons.IH)
  next
    case False
    then have n: "count_Si (at # rest) = count_Si rest"
      by (simp add: count_Si_def)
    show ?thesis
      unfolding n using False by (simp add: Cons.IH)
  qed
qed

text \<open>
  \<open>Tat\<close> and \<open>alcount\<close> are C \<open>int\<close>s and are modelled by unbounded integers: in a call they
  stay below the number of atoms visited plus two, which is at most \<open>Natoms + 1\<close>.
\<close>

lemma counters_bounded:
  "fst (snd (atoms_loop P Als list (os, - 1, 1))) < int (length list)
   \<and> snd (snd (atoms_loop P Als list (os, - 1, 1))) \<le> 1 + int (length list)"
proof -
  have a: "count_Si list \<le> length list"
    by (simp add: count_Si_def)
  have "length (filter (\<lambda>k. - 1 + 1 + int k \<in> set Als) [0..<count_Si list]) \<le> length [0..<count_Si list]"
    by (rule length_filter_le)
  then have b: "length (filter (\<lambda>k. - 1 + 1 + int k \<in> set Als) [0..<count_Si list]) \<le> length list"
    using a by simp
  show ?thesis
    unfolding atoms_loop_Tat atoms_loop_alcount using a b by simp
qed

lemma header_eq:
  "put_header P g w name_zeo (run [setprecision 3, fixed] new_stream) =
     \<lparr>buf = unlines (header_lines (num_put P ff_fixed 3) (dmul P) g (date_buffer w) (username w) name_zeo),
      width = 0, precision = 3, floatfmt = ff_fixed\<rparr>"
  by (simp add: put_header_def header_lines_def stream_ops new_stream_def)

lemma write_cif_buf:
  "buf (fst (write_cif P g w list Als name_zeo new_stream)) =
     unlines (header_lines (num_put P ff_fixed 3) (dmul P) g (date_buffer w) (username w) name_zeo
       @ atom_rows (num_put P ff_fixed 3) Als (- 1) 1 (take (nat (Natoms g)) list))"
proof -
  have "ready \<lparr>buf = b, width = 0, precision = 3, floatfmt = ff_fixed\<rparr>" for b
    by (simp add: ready_def)
  then show ?thesis
    by (simp add: write_cif_def header_eq atoms_loop_buf)
qed

lemma print_structure_eq:
  assumes "openable w (c_str (fname out_name name_zeo name_alg struc))"
    and "Natoms g \<le> int (length list)"
  shows "print_structure P g w list Als struc name_zeo name_alg out_name =
     Returned (w\<lparr>files := (files w)(c_str (fname out_name name_zeo name_alg struc) \<mapsto>
       unlines (header_lines (num_put P ff_fixed 3) (dmul P) g (date_buffer w) (username w) name_zeo
         @ atom_rows (num_put P ff_fixed 3) Als (- 1) 1 (take (nat (Natoms g)) list)))\<rparr>)"
  using assms by (simp add: print_structure_def write_cif_buf Let_def)

lemma atom_rows_no_Als: "atom_rows fmt [] Tat alcount list = map (atom_row fmt) list"
  by (induction list arbitrary: Tat alcount) simp_all

lemma atom_rows_length: "length (atom_rows fmt Als Tat alcount list) = length list"
  by (induction list arbitrary: Tat alcount) simp_all

lemma count_Si_append: "count_Si (xs @ ys) = count_Si xs + count_Si ys"
  by (simp add: count_Si_def)

lemma count_Si_Cons: "count_Si (x # xs) = (if atom_id x = ''Si'' then 1 else 0) + count_Si xs"
  by (simp add: count_Si_def)

text \<open>The loop looks at \<open>Als\<close> only through the set of its elements.\<close>

lemma atoms_loop_set:
  assumes "set Als = set Als'"
  shows "atoms_loop P Als list st = atoms_loop P Als' list st"
proof (induction list arbitrary: st)
  case Nil
  then show ?case by simp
next
  case (Cons at rest)
  obtain os Tat alcount where st: "st = (os, Tat, alcount)"
    by (cases st)
  show ?case
    unfolding st using assms by (simp add: scan_Als_eq Cons.IH)
qed

lemma write_cif_alcount:
  "snd (snd (write_cif P g w list Als name_zeo fout)) =
     1 + int (length (filter (\<lambda>k. int k \<in> set Als) [0..<count_Si (take (nat (Natoms g)) list)]))"
  by (simp add: write_cif_def atoms_loop_alcount)

text \<open>
  Only the elements of \<open>Als\<close> among the counter values still to come matter: these are
  \<open>Tat + 1\<close> up to \<open>Tat\<close> plus the number of Si atoms left.
\<close>

lemma atom_rows_range:
  assumes "\<forall>k. Tat < k \<and> k \<le> Tat + int (count_Si list) \<longrightarrow> (k \<in> set Als \<longleftrightarrow> k \<in> set Als')"
  shows "atom_rows fmt Als Tat alcount list = atom_rows fmt Als' Tat alcount list"
  using assms
proof (induction list arbitrary: Tat alcount)
  case Nil
  then show ?case by simp
next
  case (Cons at rest)
  show ?case
  proof (cases "atom_id at = ''Si''")
    case True
    then have n: "count_Si (at # rest) = Suc (count_Si rest)"
      by (simp add: count_Si_def)
    have here: "Tat + 1 \<in> set Als \<longleftrightarrow> Tat + 1 \<in> set Als'"
      using Cons.prems n by simp
    have later: "\<forall>k. Tat + 1 < k \<and> k \<le> Tat + 1 + int (count_Si rest)
        \<longrightarrow> (k \<in> set Als \<longleftrightarrow> k \<in> set Als')"
      using Cons.prems n by simp
    show ?thesis
      using True here Cons.IH [OF later] by simp
  next
    case False
    then have n: "count_Si (at # rest) = count_Si rest"
      by (simp add: count_Si_def)
    show ?thesis
      using False Cons.IH [of Tat] Cons.prems n by simp
  qed
qed

lemma atom_rows_unmatched:
  assumes "\<forall>k. Tat < k \<and> k \<le> Tat + int (count_Si xs) \<longrightarrow> k \<notin> set Als"
  shows "atom_rows fmt Als Tat alcount (xs @ ys) =
           map (atom_row fmt) xs @ atom_rows fmt Als (Tat + int (count_Si xs)) alcount ys"
  using assms
proof (induction xs arbitrary: Tat)
  case Nil
  then show ?case by (simp add: count_Si_def)
next
  case (Cons at rest)
  show ?case
  proof (cases "atom_id at = ''Si''")
    case True
    then have n: "count_Si (at # rest) = Suc (count_Si rest)"
      by (simp add: count_Si_def)
    have here: "Tat + 1 \<notin> set Als"
      using Cons.prems n by simp
    have later: "\<forall>k. Tat + 1 < k \<and> k \<le> Tat + 1 + int (count_Si rest) \<longrightarrow> k \<notin> set Als"
      using Cons.prems n by simp
    show ?thesis
      using True here Cons.IH [OF later] n by (simp add: add.assoc)
  next
    case False
    then have n: "count_Si (at # rest) = count_Si rest"
      by (simp add: count_Si_def)
    show ?thesis
      using False Cons.IH [of Tat] Cons.prems n by simp
  qed
qed

text \<open>An array with more than \<open>n\<close> Si atoms splits at the Si atom that has \<open>n\<close> before it.\<close>

lemma split_at_Si:
  assumes "n < count_Si list"
  shows "\<exists>xs s ys. list = xs @ s # ys \<and> atom_id s = ''Si'' \<and> count_Si xs = n"
  using assms
proof (induction list arbitrary: n)
  case Nil
  then show ?case by (simp add: count_Si_def)
next
  case (Cons at rest)
  show ?case
  proof (cases "atom_id at = ''Si'' \<and> n = 0")
    case True
    then have "at # rest = [] @ at # rest \<and> atom_id at = ''Si'' \<and> count_Si ([] :: 'a atom list) = n"
      by (simp add: count_Si_def)
    then show ?thesis by blast
  next
    case False
    define m where "m = (if atom_id at = ''Si'' then n - 1 else n)"
    have "m < count_Si rest"
      using Cons.prems False by (auto simp: m_def count_Si_def)
    from Cons.IH [OF this] obtain xs s ys
      where r: "rest = xs @ s # ys" "atom_id s = ''Si''" "count_Si xs = m"
      by blast
    have "count_Si (at # xs) = n"
      using r(3) False by (auto simp: m_def count_Si_def)
    with r(1,2) have "at # rest = (at # xs) @ s # ys \<and> atom_id s = ''Si'' \<and> count_Si (at # xs) = n"
      by simp
    then show ?thesis by blast
  qed
qed

lemma to_string_1: "to_string 1 = ''1''"
  by (simp add: to_string_def dec.simps digit_char_def)

lemma to_string_2: "to_string 2 = ''2''"
  by (simp add: to_string_def dec.simps digit_char_def)

lemma rows_Als_0_2:
  assumes "set Als = {0, 2}"
    and "count_Si pre = 0" and "atom_id s1 = ''Si''" and "count_Si mid = 1" and "atom_id s3 = ''Si''"
  shows "atom_rows fmt Als (- 1) 1 (pre @ s1 # mid @ s3 # post) =
     map (atom_row fmt) pre @ [al_row fmt ''Al1'' s1] @ map (atom_row fmt) mid
       @ [al_row fmt ''Al2'' s3] @ map (atom_row fmt) post"
proof -
  have "atom_rows fmt Als (- 1) 1 (pre @ s1 # mid @ s3 # post) =
      map (atom_row fmt) pre @ atom_rows fmt Als (- 1 + int (count_Si pre)) 1 (s1 # mid @ s3 # post)"
    by (rule atom_rows_unmatched) (auto simp: assms(2))
  then have a: "atom_rows fmt Als (- 1) 1 (pre @ s1 # mid @ s3 # post) =
      map (atom_row fmt) pre @ atom_rows fmt Als (- 1) 1 (s1 # mid @ s3 # post)"
    by (simp add: assms(2))
  have "atom_rows fmt Als 0 2 (mid @ s3 # post) =
      map (atom_row fmt) mid @ atom_rows fmt Als (0 + int (count_Si mid)) 2 (s3 # post)"
    by (rule atom_rows_unmatched) (auto simp: assms(1,4))
  then have b: "atom_rows fmt Als 0 2 (mid @ s3 # post) =
      map (atom_row fmt) mid @ atom_rows fmt Als 1 2 (s3 # post)"
    by (simp add: assms(4))
  have "atom_rows fmt Als 2 3 (post @ []) =
      map (atom_row fmt) post @ atom_rows fmt Als (2 + int (count_Si post)) 3 []"
    by (rule atom_rows_unmatched) (auto simp: assms(1))
  then have c: "atom_rows fmt Als 2 3 post = map (atom_row fmt) post"
    by simp
  show ?thesis
    using assms(1,3,5) c by (simp add: a b to_string_1 to_string_2)
qed

lemma print_structure_range:
  assumes "\<forall>k. 0 \<le> k \<and> k < int (count_Si (take (nat (Natoms g)) list))
             \<longrightarrow> (k \<in> set Als \<longleftrightarrow> k \<in> set Als')"
  shows "print_structure P g w list Als struc name_zeo name_alg out_name =
         print_structure P g w list Als' struc name_zeo name_alg out_name"
proof -
  have "atom_rows (num_put P ff_fixed 3) Als (- 1) 1 (take (nat (Natoms g)) list) =
      atom_rows (num_put P ff_fixed 3) Als' (- 1) 1 (take (nat (Natoms g)) list)"
    by (rule atom_rows_range) (use assms in auto)
  then show ?thesis
    by (simp add: print_structure_def write_cif_buf Let_def)
qed

lemma username_getenv:
  assumes "getenv w' = getenv w"
  shows "username w' = username w"
  using assms by (simp add: username_def split: option.splits)

lemma header_lines_date:
  "header_lines fmt mul g d u name_zeo =
     (header_lines fmt mul g dd u name_zeo)[3 := ''_audit_creation_date '' @ d]"
  by (simp add: header_lines_def)

lemma header_lines_user:
  "header_lines fmt mul g d u name_zeo =
     (header_lines fmt mul g d uu name_zeo)[4 := ''_audit_author_name '' @ [CHR 0x27] @ u @ [CHR 0x27]]"
  by (simp add: header_lines_def)

text \<open>The sample inputs satisfy what the theorems below assume.\<close>

lemma ex_openable: "openable ex_sys (c_str (fname ''out'' ''MFI'' ''merw'' 7))"
  by (simp add: ex_defs)

lemma ex_Natoms: "Natoms ex_globals = int (length ex_atoms)"
  by (simp add: ex_defs)

lemma ex_count_Si: "count_Si ex_atoms = 3"
  by (simp add: ex_atoms_def count_Si_def)

lemmas eval_defs = ex_defs milli_put_def pad_def replicate_numeral











text \<open>The rows of an array split at a Si atom.\<close>

lemma atom_rows_append:
  "atom_rows fmt Als Tat alcount (xs @ ys) =
     atom_rows fmt Als Tat alcount xs
     @ atom_rows fmt Als (Tat + int (count_Si xs))
         (alcount + int (length (filter (\<lambda>k. Tat + 1 + int k \<in> set Als) [0..<count_Si xs]))) ys"
proof (induction xs arbitrary: Tat alcount)
  case Nil
  then show ?case by (simp add: count_Si_def)
next
  case (Cons at rest)
  have shift: "\<And>k. Tat + 1 + int (Suc k) = Tat + 1 + 1 + int k"
    by simp
  show ?case
  proof (cases "atom_id at = ''Si''")
    case True
    then have n: "count_Si (at # rest) = Suc (count_Si rest)"
      by (simp add: count_Si_def)
    show ?thesis
      unfolding n length_filter_upt_Suc shift
      using True by (simp add: Cons.IH add.assoc)
  next
    case False
    then have n: "count_Si (at # rest) = count_Si rest"
      by (simp add: count_Si_def)
    show ?thesis
      unfolding n using False by (simp add: Cons.IH)
  qed
qed

lemma rows_at_Si:
  assumes "atom_id s = ''Si''"
  shows "atom_rows fmt Als (- 1) 1 (xs @ s # ys) =
     atom_rows fmt Als (- 1) 1 xs
     @ [if int (count_Si xs) \<in> set Als
        then al_row fmt (''Al'' @ to_string (1 + int (length (filter (\<lambda>k. int k \<in> set Als) [0..<count_Si xs])))) s
        else atom_row fmt s]
     @ atom_rows fmt Als (int (count_Si xs))
         (1 + int (length (filter (\<lambda>k. int k \<in> set Als) [0..<Suc (count_Si xs)]))) ys"
  using assms by (simp add: atom_rows_append [of fmt Als "- 1" 1 xs])

section \<open>The claims\<close>

text \<open>
  C1. With \<open>Als\<close> holding exactly the indices 0 and 2 (in any order, repeated or not) and an
  atom array of length \<open>Natoms\<close> with at least three Si atoms, the array splits at its
  first Si atom \<open>s1\<close> (no Si atom before it) and its third Si atom \<open>s3\<close> (exactly one Si atom
  between the two); the rows of \<open>s1\<close> and \<open>s3\<close> carry the labels \<open>Al1\<close> and \<open>Al2\<close> and the type
  symbol \<open>Al\<close>, and the row of every other atom is made of its own \<open>at\<close> and \<open>id\<close>.
\<close>

theorem first_and_third_Si_relabelled:
  assumes "set Als = {0, 2}" and "3 \<le> count_Si list"
    and "openable w (c_str (fname out_name name_zeo name_alg struc))"
    and "Natoms g = int (length list)"
  shows "\<exists>pre s1 mid s3 post.
     list = pre @ s1 # mid @ s3 # post
     \<and> count_Si pre = 0 \<and> atom_id s1 = ''Si'' \<and> count_Si mid = 1 \<and> atom_id s3 = ''Si''
     \<and> print_structure P g w list Als struc name_zeo name_alg out_name =
       Returned (w\<lparr>files := (files w)(c_str (fname out_name name_zeo name_alg struc) \<mapsto>
         unlines (header_lines (num_put P ff_fixed 3) (dmul P) g (date_buffer w) (username w) name_zeo
           @ map (atom_row (num_put P ff_fixed 3)) pre
           @ [al_row (num_put P ff_fixed 3) ''Al1'' s1]
           @ map (atom_row (num_put P ff_fixed 3)) mid
           @ [al_row (num_put P ff_fixed 3) ''Al2'' s3]
           @ map (atom_row (num_put P ff_fixed 3)) post))\<rparr>)"
proof -
  from assms(2) have "0 < count_Si list" by simp
  from split_at_Si [OF this] obtain pre s1 r
    where l: "list = pre @ s1 # r" and pre: "count_Si pre = 0" and s1: "atom_id s1 = ''Si''"
    by blast
  have "1 < count_Si r"
    using assms(2) pre s1 by (simp add: l count_Si_append count_Si_Cons)
  from split_at_Si [OF this] obtain mid s3 post
    where r: "r = mid @ s3 # post" and mid: "count_Si mid = 1" and s3: "atom_id s3 = ''Si''"
    by blast
  have rows: "atom_rows (num_put P ff_fixed 3) Als (- 1) 1 list =
     map (atom_row (num_put P ff_fixed 3)) pre @ [al_row (num_put P ff_fixed 3) ''Al1'' s1]
       @ map (atom_row (num_put P ff_fixed 3)) mid
       @ [al_row (num_put P ff_fixed 3) ''Al2'' s3] @ map (atom_row (num_put P ff_fixed 3)) post"
    unfolding l r by (rule rows_Als_0_2 [OF assms(1) pre s1 mid s3])
  have "print_structure P g w list Als struc name_zeo name_alg out_name =
       Returned (w\<lparr>files := (files w)(c_str (fname out_name name_zeo name_alg struc) \<mapsto>
         unlines (header_lines (num_put P ff_fixed 3) (dmul P) g (date_buffer w) (username w) name_zeo
           @ map (atom_row (num_put P ff_fixed 3)) pre
           @ [al_row (num_put P ff_fixed 3) ''Al1'' s1]
           @ map (atom_row (num_put P ff_fixed 3)) mid
           @ [al_row (num_put P ff_fixed 3) ''Al2'' s3]
           @ map (atom_row (num_put P ff_fixed 3)) post))\<rparr>)"
    using assms(3,4) by (simp add: print_structure_eq rows)
  with l r pre s1 mid s3 show ?thesis
    by blast
qed

text \<open>
  On the sample array (Si, O, Si, Si) the hypotheses hold, and running the stream
  operations gives the whole file: the first and the last row are relabelled.
\<close>

theorem first_and_third_Si_relabelled_witness:
  "set [2, 0] = {0, 2 :: int} \<and> 3 \<le> count_Si ex_atoms
   \<and> openable ex_sys (c_str (fname ''out'' ''MFI'' ''merw'' 7))
   \<and> Natoms ex_globals = int (length ex_atoms)
   \<and> (\<exists>pre s1 mid s3 post.
     ex_atoms = pre @ s1 # mid @ s3 # post
     \<and> count_Si pre = 0 \<and> atom_id s1 = ''Si'' \<and> count_Si mid = 1 \<and> atom_id s3 = ''Si''
     \<and> print_structure milli ex_globals ex_sys ex_atoms [2, 0] 7 ''MFI'' ''merw'' ''out'' =
       Returned (ex_sys\<lparr>files := (files ex_sys)(c_str (fname ''out'' ''MFI'' ''merw'' 7) \<mapsto>
         unlines (header_lines (num_put milli ff_fixed 3) (dmul milli) ex_globals
             (date_buffer ex_sys) (username ex_sys) ''MFI''
           @ map (atom_row (num_put milli ff_fixed 3)) pre
           @ [al_row (num_put milli ff_fixed 3) ''Al1'' s1]
           @ map (atom_row (num_put milli ff_fixed 3)) mid
           @ [al_row (num_put milli ff_fixed 3) ''Al2'' s3]
           @ map (atom_row (num_put milli ff_fixed 3)) post))\<rparr>))
   \<and> print_structure milli ex_globals ex_sys ex_atoms [2, 0] 7 ''MFI'' ''merw'' ''out'' =
       Returned (ex_sys\<lparr>files := (files ex_sys)(''out/MFI_merw_7.cif'' \<mapsto> unlines
         [''data_MFI'',
          [],
          ''_audit_creation_method RASPA-1.0'',
          ''_audit_creation_date 2024-01-15'',
          ''_audit_author_name '' @ [CHR 0x27] @ ''unknown_user'' @ [CHR 0x27],
          [],
          ''_cell_length_a    20.022'',
          ''_cell_length_b    19.899'',
          ''_cell_length_c    13.383'',
          ''_cell_angle_alpha 90.000'',
          ''_cell_angle_beta  90.000'',
          ''_cell_angle_gamma 120.000'',
          ''_cell_volume      5332.014'',
          [],
          ''_symmetry_cell_setting          triclinic'',
          ''_symmetry_space_group_name_Hall '' @ [CHR 0x27] @ ''P 1'' @ [CHR 0x27],
          ''_symmetry_space_group_name_H-M  '' @ [CHR 0x27] @ ''P 1'' @ [CHR 0x27],
          ''_symmetry_Int_Tables_number     1'',
          ''_symmetry_equiv_pos_as_xyz '' @ [CHR 0x27] @ ''x,y,z'' @ [CHR 0x27],
          [],
          ''loop_'',
          ''_atom_site_label'',
          ''_atom_site_type_symbol'',
          ''_atom_site_fract_x'',
          ''_atom_site_fract_y'',
          ''_atom_site_fract_z'',
          ''_atom_site_charge'',
          ''Al1        Al     0.100     0.200     0.300     1.200'',
          ''O1         O     0.400     0.500     0.600    -0.800'',
          ''T2        Si     0.700     0.800     0.900     1.200'',
          ''Al2        Al     0.250     0.750     0.500     1.200''])\<rparr>)"
proof -
  have h1: "set [2, 0] = {0, 2 :: int}" by auto
  have h2: "3 \<le> count_Si ex_atoms" by (simp add: ex_count_Si)
  note ex = first_and_third_Si_relabelled [OF h1 h2 ex_openable ex_Natoms, where P = milli]
  have run: "print_structure milli ex_globals ex_sys ex_atoms [2, 0] 7 ''MFI'' ''merw'' ''out'' =
       Returned (ex_sys\<lparr>files := (files ex_sys)(''out/MFI_merw_7.cif'' \<mapsto> unlines
         [''data_MFI'',
          [],
          ''_audit_creation_method RASPA-1.0'',
          ''_audit_creation_date 2024-01-15'',
          ''_audit_author_name '' @ [CHR 0x27] @ ''unknown_user'' @ [CHR 0x27],
          [],
          ''_cell_length_a    20.022'',
          ''_cell_length_b    19.899'',
          ''_cell_length_c    13.383'',
          ''_cell_angle_alpha 90.000'',
          ''_cell_angle_beta  90.000'',
          ''_cell_angle_gamma 120.000'',
          ''_cell_volume      5332.014'',
          [],
          ''_symmetry_cell_setting          triclinic'',
          ''_symmetry_space_group_name_Hall '' @ [CHR 0x27] @ ''P 1'' @ [CHR 0x27],
          ''_symmetry_space_group_name_H-M  '' @ [CHR 0x27] @ ''P 1'' @ [CHR 0x27],
          ''_symmetry_Int_Tables_number     1'',
          ''_symmetry_equiv_pos_as_xyz '' @ [CHR 0x27] @ ''x,y,z'' @ [CHR 0x27],
          [],
          ''loop_'',
          ''_atom_site_label'',
          ''_atom_site_type_symbol'',
          ''_atom_site_fract_x'',
          ''_atom_site_fract_y'',
          ''_atom_site_fract_z'',
          ''_atom_site_charge'',
          ''Al1        Al     0.100     0.200     0.300     1.200'',
          ''O1         O     0.400     0.500     0.600    -0.800'',
          ''T2        Si     0.700     0.800     0.900     1.200'',
          ''Al2        Al     0.250     0.750     0.500     1.200''])\<rparr>)"
    using print_structure_eq [OF ex_openable, of ex_globals ex_atoms milli "[2, 0]"]
    by (simp add: header_lines_def atom_row_def al_row_def eval_defs username_def)
  show ?thesis
    by (rule conjI h1 h2 ex_openable ex_Natoms ex run)+
qed

text \<open>
  C2. With an empty \<open>Als\<close> and an atom array of length \<open>Natoms\<close>, the file holds the header
  and then exactly one row per array element, in array order, each made of the element's
  own \<open>at\<close>, \<open>id\<close>, \<open>x\<close>, \<open>y\<close>, \<open>z\<close> and \<open>q\<close>.
\<close>

theorem empty_Als_rows:
  assumes "openable w (c_str (fname out_name name_zeo name_alg struc))"
    and "Natoms g = int (length list)"
  shows "print_structure P g w list [] struc name_zeo name_alg out_name =
     Returned (w\<lparr>files := (files w)(c_str (fname out_name name_zeo name_alg struc) \<mapsto>
       unlines (header_lines (num_put P ff_fixed 3) (dmul P) g (date_buffer w) (username w) name_zeo
         @ map (atom_row (num_put P ff_fixed 3)) list))\<rparr>)
     \<and> length (map (atom_row (num_put P ff_fixed 3)) list) = nat (Natoms g)"
  using assms by (simp add: print_structure_eq atom_rows_no_Als)

theorem empty_Als_rows_witness:
  "openable ex_sys (c_str (fname ''out'' ''MFI'' ''merw'' 7))
   \<and> Natoms ex_globals = int (length ex_atoms)
   \<and> print_structure milli ex_globals ex_sys ex_atoms [] 7 ''MFI'' ''merw'' ''out'' =
     Returned (ex_sys\<lparr>files := (files ex_sys)(''out/MFI_merw_7.cif'' \<mapsto>
       unlines (header_lines (milli_put ff_fixed 3) (\<lambda>x y. x * y div 1000) ex_globals
           ''2024-01-15'' ''unknown_user'' ''MFI''
         @ [''T1        Si     0.100     0.200     0.300     1.200'',
            ''O1         O     0.400     0.500     0.600    -0.800'',
            ''T2        Si     0.700     0.800     0.900     1.200'',
            ''T3        Si     0.250     0.750     0.500     1.200'']))\<rparr>)"
  using empty_Als_rows [of ex_sys "''out''" "''MFI''" "''merw''" 7 ex_globals ex_atoms milli]
  by (simp add: ex_defs username_def atom_row_def milli_put_def pad_def replicate_numeral)

text \<open>
  C3. Duplicates in \<open>Als\<close> change nothing. The scan of \<open>Als\<close> for one Si atom ends either
  with a single aluminium row written and \<open>alcount\<close> advanced by one, however often the
  counter occurs in \<open>Als\<close>, or with nothing written and \<open>ctl\<close> still 1, so that the atom then
  gets its own row: the file holds one row per atom. The call with the duplicates removed
  has the same outcome, and the final \<open>alcount\<close> is one more than the number of Si atoms
  whose counter is an element of \<open>Als\<close>.
\<close>

theorem duplicate_Als_entries_inert:
  assumes "openable w (c_str (fname out_name name_zeo name_alg struc))"
    and "Natoms g = int (length list)"
  shows "scan_Als P at Tat Als (os, 1, alcount) =
       (if Tat \<in> set Als then (put_al_row P alcount at os, 0, alcount + 1) else (os, 1, alcount))
   \<and> print_structure P g w list Als struc name_zeo name_alg out_name =
       Returned (w\<lparr>files := (files w)(c_str (fname out_name name_zeo name_alg struc) \<mapsto>
         unlines (header_lines (num_put P ff_fixed 3) (dmul P) g (date_buffer w) (username w) name_zeo
           @ atom_rows (num_put P ff_fixed 3) Als (- 1) 1 list))\<rparr>)
   \<and> length (atom_rows (num_put P ff_fixed 3) Als (- 1) 1 list) = length list
   \<and> print_structure P g w list (remdups Als) struc name_zeo name_alg out_name =
       print_structure P g w list Als struc name_zeo name_alg out_name
   \<and> snd (snd (write_cif P g w list Als name_zeo new_stream)) =
       1 + int (length (filter (\<lambda>k. int k \<in> set Als) [0..<count_Si list]))"
proof -
  have "write_cif P g w list (remdups Als) name_zeo new_stream =
      write_cif P g w list Als name_zeo new_stream"
    unfolding write_cif_def by (rule atoms_loop_set) simp
  then have "print_structure P g w list (remdups Als) struc name_zeo name_alg out_name =
       print_structure P g w list Als struc name_zeo name_alg out_name"
    by (simp add: print_structure_def Let_def)
  then show ?thesis
    using assms by (simp add: scan_Als_eq print_structure_eq atom_rows_length write_cif_alcount)
qed

text \<open>
  With \<open>Als = [2, 0, 2, 2]\<close> on the sample array: the scan for the third Si atom writes one
  row and moves \<open>alcount\<close> from 2 to 3, four rows are written, and \<open>alcount\<close> ends at 3.
\<close>

theorem duplicate_Als_entries_inert_witness:
  "openable ex_sys (c_str (fname ''out'' ''MFI'' ''merw'' 7))
   \<and> Natoms ex_globals = int (length ex_atoms)
   \<and> scan_Als milli (ex_atoms ! 3) 2 [2, 0, 2, 2] (new_stream, 1, 2) =
       (put_al_row milli 2 (ex_atoms ! 3) new_stream, 0, 3)
   \<and> length (atom_rows (num_put milli ff_fixed 3) [2, 0, 2, 2] (- 1) 1 ex_atoms) = 4
   \<and> print_structure milli ex_globals ex_sys ex_atoms (remdups [2, 0, 2, 2]) 7 ''MFI'' ''merw'' ''out'' =
       print_structure milli ex_globals ex_sys ex_atoms [2, 0, 2, 2] 7 ''MFI'' ''merw'' ''out''
   \<and> snd (snd (write_cif milli ex_globals ex_sys ex_atoms [2, 0, 2, 2] ''MFI'' new_stream)) = 3"
proof -
  have len: "length ex_atoms = 4"
    by (simp add: ex_atoms_def)
  have n: "length (filter (\<lambda>k. int k \<in> set [2, 0, 2, 2]) [0..<count_Si ex_atoms]) = 2"
    by (simp add: ex_count_Si numeral_3_eq_3)
  note t = duplicate_Als_entries_inert [OF ex_openable ex_Natoms, where P = milli
      and Als = "[2, 0, 2, 2]" and Tat = 2 and at = "ex_atoms ! 3" and os = new_stream and alcount = 2,
      unfolded n]
  show ?thesis
    using t ex_openable ex_Natoms by (simp add: len)
qed

text \<open>
  C4. An element \<open>v\<close> of \<open>Als\<close> that is negative or at least \<open>Tatoms\<close>, where \<open>Tatoms\<close> is the
  number of Si atoms of the array, never matches: the call has the outcome of the call
  with every occurrence of \<open>v\<close> removed from \<open>Als\<close>, and it returns.
\<close>

theorem out_of_range_index_inert:
  assumes "Natoms g = int (length list)" and "Tatoms g = int (count_Si list)"
    and "v < 0 \<or> Tatoms g \<le> v"
    and "openable w (c_str (fname out_name name_zeo name_alg struc))"
  shows "print_structure P g w list Als struc name_zeo name_alg out_name =
       print_structure P g w list (removeAll v Als) struc name_zeo name_alg out_name
   \<and> print_structure P g w list Als struc name_zeo name_alg out_name =
       Returned (w\<lparr>files := (files w)(c_str (fname out_name name_zeo name_alg struc) \<mapsto>
         unlines (header_lines (num_put P ff_fixed 3) (dmul P) g (date_buffer w) (username w) name_zeo
           @ atom_rows (num_put P ff_fixed 3) (removeAll v Als) (- 1) 1 list))\<rparr>)"
proof -
  have eq: "print_structure P g w list Als struc name_zeo name_alg out_name =
       print_structure P g w list (removeAll v Als) struc name_zeo name_alg out_name"
    by (rule print_structure_range) (use assms(1,2,3) in auto)
  show ?thesis
    using assms(1,4) by (simp add: eq print_structure_eq)
qed

theorem out_of_range_index_inert_witness:
  "Natoms ex_globals = int (length ex_atoms) \<and> Tatoms ex_globals = int (count_Si ex_atoms)
   \<and> ((3 :: int) < 0 \<or> Tatoms ex_globals \<le> 3)
   \<and> openable ex_sys (c_str (fname ''out'' ''MFI'' ''merw'' 7))
   \<and> print_structure milli ex_globals ex_sys ex_atoms [3, 0, 3, 2] 7 ''MFI'' ''merw'' ''out'' =
       print_structure milli ex_globals ex_sys ex_atoms [0, 2] 7 ''MFI'' ''merw'' ''out''"
proof -
  have h2: "Tatoms ex_globals = int (count_Si ex_atoms)"
    by (simp add: ex_count_Si ex_globals_def)
  have h3: "(3 :: int) < 0 \<or> Tatoms ex_globals \<le> 3"
    by (simp add: ex_globals_def)
  show ?thesis
    using out_of_range_index_inert [OF ex_Natoms h2 h3 ex_openable, where P = milli
        and Als = "[3, 0, 3, 2]"] ex_Natoms h2 h3 ex_openable
    by simp
qed

text \<open>
  C5. The thirteenth record of the file is \<open>_cell_volume\<close> followed by the rendering of
  \<open>(a * b) * c\<close>, the product of the three cell lengths as the platform multiplies; the
  angles take no part in it, whatever their values.
\<close>

theorem cell_volume_plain_product:
  assumes "openable w (c_str (fname out_name name_zeo name_alg struc))"
    and "Natoms g \<le> int (length list)"
  shows "print_structure P g w list Als struc name_zeo name_alg out_name =
     Returned (w\<lparr>files := (files w)(c_str (fname out_name name_zeo name_alg struc) \<mapsto>
       unlines (header_lines (num_put P ff_fixed 3) (dmul P) g (date_buffer w) (username w) name_zeo
         @ atom_rows (num_put P ff_fixed 3) Als (- 1) 1 (take (nat (Natoms g)) list)))\<rparr>)
   \<and> (header_lines (num_put P ff_fixed 3) (dmul P) g (date_buffer w) (username w) name_zeo
         @ atom_rows (num_put P ff_fixed 3) Als (- 1) 1 (take (nat (Natoms g)) list)) ! 12 =
       ''_cell_volume      '' @ num_put P ff_fixed 3 (dmul P (dmul P (cell_a g) (cell_b g)) (cell_c g))
   \<and> header_lines (num_put P ff_fixed 3) (dmul P) (g\<lparr>cell_alpha := al, cell_beta := be, cell_gama := ga\<rparr>)
         (date_buffer w) (username w) name_zeo ! 12 =
       ''_cell_volume      '' @ num_put P ff_fixed 3 (dmul P (dmul P (cell_a g) (cell_b g)) (cell_c g))"
  using assms by (simp add: print_structure_eq header_lines_def nth_append)

text \<open>
  The sample cell has \<open>gamma = 120\<close>; the volume written is the product of 20.022, 19.899
  and 13.383 as the sample platform multiplies, which cuts each product off after the
  third decimal.
\<close>

theorem cell_volume_plain_product_witness:
  "openable ex_sys (c_str (fname ''out'' ''MFI'' ''merw'' 7))
   \<and> Natoms ex_globals \<le> int (length ex_atoms)
   \<and> (header_lines (num_put milli ff_fixed 3) (dmul milli) ex_globals (date_buffer ex_sys)
         (username ex_sys) ''MFI''
       @ atom_rows (num_put milli ff_fixed 3) [0, 2] (- 1) 1 (take (nat (Natoms ex_globals)) ex_atoms)) ! 12 =
       ''_cell_volume      5332.014''"
proof -
  have h2: "Natoms ex_globals \<le> int (length ex_atoms)"
    by (simp add: ex_Natoms)
  have v: "''_cell_volume      '' @ num_put milli ff_fixed 3
      (dmul milli (dmul milli (cell_a ex_globals) (cell_b ex_globals)) (cell_c ex_globals)) =
      ''_cell_volume      5332.014''"
    by (simp add: eval_defs)
  show ?thesis
    using cell_volume_plain_product [OF ex_openable h2, where P = milli and Als = "[0, 2]"]
      ex_openable h2 v
    by simp
qed

text \<open>
  C6. When the file cannot be opened under the C string of
  \<open>out_name/name_zeo_name_alg_struc.cif\<close>, the process exits with status 1; all that has
  changed is \<open>cerr\<close>, which has received \<open>unable to open file\<close>, that file name,
  \<open>for writing\<close> and a newline. No file is written and the call does not return.
\<close>

theorem open_failure_exits:
  assumes "\<not> openable w (c_str (fname out_name name_zeo name_alg struc))"
  shows "print_structure P g w list Als struc name_zeo name_alg out_name =
     Exited 1 (w\<lparr>cerr := (cerr w)\<lparr>buf := buf (cerr w) @ pad (width (cerr w)) ''unable to open file ''
         @ c_str (fname out_name name_zeo name_alg struc) @ '' for writing'' @ [CHR 0x0A],
       width := 0\<rparr>\<rparr>)"
  using assms by (simp add: print_structure_def Let_def stream_ops)

theorem open_failure_exits_witness:
  "\<not> openable ex_sys (c_str (fname ''nowhere'' ''MFI'' ''merw'' 7))
   \<and> print_structure milli ex_globals ex_sys ex_atoms [0, 2] 7 ''MFI'' ''merw'' ''nowhere'' =
     Exited 1 (ex_sys\<lparr>cerr := new_stream\<lparr>buf :=
       ''unable to open file nowhere/MFI_merw_7.cif for writing'' @ [CHR 0x0A]\<rparr>\<rparr>)"
  using open_failure_exits [of ex_sys "''nowhere''" "''MFI''" "''merw''" 7 milli ex_globals ex_atoms "[0, 2]"]
  by (simp add: ex_defs new_stream_def)

text \<open>
  C7. With neither \<open>USER\<close> nor \<open>USERNAME\<close> set the call returns, and the file it writes is the
  file of the same call with \<open>USER\<close> set to any name \<open>u\<close>, except that the fifth record is
  \<open>_audit_author_name 'unknown_user'\<close>.
\<close>

theorem missing_username_placeholder:
  assumes "getenv w ''USER'' = None" and "getenv w ''USERNAME'' = None"
    and "openable w (c_str (fname out_name name_zeo name_alg struc))"
    and "Natoms g \<le> int (length list)"
  shows "print_structure P g w list Als struc name_zeo name_alg out_name =
     Returned (w\<lparr>files := (files w)(c_str (fname out_name name_zeo name_alg struc) \<mapsto>
       unlines ((header_lines (num_put P ff_fixed 3) (dmul P) g (date_buffer w) u name_zeo)
           [4 := ''_audit_author_name '' @ [CHR 0x27] @ ''unknown_user'' @ [CHR 0x27]]
         @ atom_rows (num_put P ff_fixed 3) Als (- 1) 1 (take (nat (Natoms g)) list)))\<rparr>)
   \<and> print_structure P g (w\<lparr>getenv := (getenv w)(''USER'' \<mapsto> u)\<rparr>) list Als struc name_zeo name_alg out_name =
     Returned (w\<lparr>getenv := (getenv w)(''USER'' \<mapsto> u),
       files := (files w)(c_str (fname out_name name_zeo name_alg struc) \<mapsto>
       unlines (header_lines (num_put P ff_fixed 3) (dmul P) g (date_buffer w) u name_zeo
         @ atom_rows (num_put P ff_fixed 3) Als (- 1) 1 (take (nat (Natoms g)) list)))\<rparr>)"
proof -
  have "username w = ''unknown_user''"
    using assms(1,2) by (simp add: username_def)
  moreover have "username (w\<lparr>getenv := (getenv w)(''USER'' \<mapsto> u)\<rparr>) = u"
    by (simp add: username_def)
  ultimately show ?thesis
    using assms(3,4) header_lines_user [of _ _ g _ "''unknown_user''" name_zeo u]
    by (simp add: print_structure_eq)
qed

theorem missing_username_placeholder_witness:
  "getenv ex_sys ''USER'' = None \<and> getenv ex_sys ''USERNAME'' = None
   \<and> openable ex_sys (c_str (fname ''out'' ''MFI'' ''merw'' 7))
   \<and> Natoms ex_globals \<le> int (length ex_atoms)
   \<and> print_structure milli ex_globals ex_sys ex_atoms [0, 2] 7 ''MFI'' ''merw'' ''out'' =
     Returned (ex_sys\<lparr>files := (files ex_sys)(c_str (fname ''out'' ''MFI'' ''merw'' 7) \<mapsto>
       unlines ((header_lines (num_put milli ff_fixed 3) (dmul milli) ex_globals (date_buffer ex_sys)
             ''alice'' ''MFI'')
           [4 := ''_audit_author_name '' @ [CHR 0x27] @ ''unknown_user'' @ [CHR 0x27]]
         @ atom_rows (num_put milli ff_fixed 3) [0, 2] (- 1) 1 (take (nat (Natoms ex_globals)) ex_atoms)))\<rparr>)"
proof -
  have h1: "getenv ex_sys ''USER'' = None" and h2: "getenv ex_sys ''USERNAME'' = None"
    by (simp_all add: ex_sys_def)
  have h4: "Natoms ex_globals \<le> int (length ex_atoms)"
    by (simp add: ex_Natoms)
  note t = missing_username_placeholder [OF h1 h2 ex_openable h4, where P = milli
      and Als = "[0, 2]" and u = "''alice''", THEN conjunct1]
  show ?thesis
    by (rule conjI h1 h2 ex_openable h4 t)+
qed






text \<open>
  C9. A call that finds the file openable returns; the same call made again, in the
  environment the first one left and on a day \<open>d\<close>, writes the file of the first call with
  the fourth record replaced by \<open>_audit_creation_date d\<close>. Everything else in the two files
  is the same.
\<close>

theorem rerun_changes_date_only:
  assumes "openable w (c_str (fname out_name name_zeo name_alg struc))"
    and "Natoms g \<le> int (length list)"
  shows "print_structure P g w list Als struc name_zeo name_alg out_name =
     Returned (w\<lparr>files := (files w)(c_str (fname out_name name_zeo name_alg struc) \<mapsto>
       unlines (header_lines (num_put P ff_fixed 3) (dmul P) g (date_buffer w) (username w) name_zeo
         @ atom_rows (num_put P ff_fixed 3) Als (- 1) 1 (take (nat (Natoms g)) list)))\<rparr>)
   \<and> print_structure P g
       (w\<lparr>files := (files w)(c_str (fname out_name name_zeo name_alg struc) \<mapsto>
           unlines (header_lines (num_put P ff_fixed 3) (dmul P) g (date_buffer w) (username w) name_zeo
             @ atom_rows (num_put P ff_fixed 3) Als (- 1) 1 (take (nat (Natoms g)) list))),
          date_buffer := d\<rparr>)
       list Als struc name_zeo name_alg out_name =
     Returned (w\<lparr>files := (files w)(c_str (fname out_name name_zeo name_alg struc) \<mapsto>
         unlines ((header_lines (num_put P ff_fixed 3) (dmul P) g (date_buffer w) (username w) name_zeo)
             [3 := ''_audit_creation_date '' @ d]
           @ atom_rows (num_put P ff_fixed 3) Als (- 1) 1 (take (nat (Natoms g)) list))),
       date_buffer := d\<rparr>)"
proof -
  let ?p = "c_str (fname out_name name_zeo name_alg struc)"
  let ?doc = "unlines (header_lines (num_put P ff_fixed 3) (dmul P) g (date_buffer w) (username w) name_zeo
         @ atom_rows (num_put P ff_fixed 3) Als (- 1) 1 (take (nat (Natoms g)) list))"
  let ?w1 = "w\<lparr>files := (files w)(?p \<mapsto> ?doc), date_buffer := d\<rparr>"
  have u: "username ?w1 = username w"
    by (rule username_getenv) simp
  have o: "openable ?w1 ?p"
    using assms(1) by simp
  have "print_structure P g ?w1 list Als struc name_zeo name_alg out_name =
     Returned (?w1\<lparr>files := (files ?w1)(?p \<mapsto>
       unlines (header_lines (num_put P ff_fixed 3) (dmul P) g (date_buffer ?w1) (username ?w1) name_zeo
         @ atom_rows (num_put P ff_fixed 3) Als (- 1) 1 (take (nat (Natoms g)) list)))\<rparr>)"
    by (rule print_structure_eq [OF o assms(2)])
  then show ?thesis
    unfolding u
    using assms header_lines_date [of _ _ g d "username w" name_zeo "date_buffer w"]
    by (simp add: print_structure_eq)
qed

theorem rerun_changes_date_only_witness:
  "openable ex_sys (c_str (fname ''out'' ''MFI'' ''merw'' 7))
   \<and> Natoms ex_globals \<le> int (length ex_atoms)
   \<and> print_structure milli ex_globals
       (ex_sys\<lparr>files := (files ex_sys)(c_str (fname ''out'' ''MFI'' ''merw'' 7) \<mapsto>
           unlines (header_lines (num_put milli ff_fixed 3) (dmul milli) ex_globals (date_buffer ex_sys)
               (username ex_sys) ''MFI''
             @ atom_rows (num_put milli ff_fixed 3) [0, 2] (- 1) 1
                 (take (nat (Natoms ex_globals)) ex_atoms))),
          date_buffer := ''2024-01-16''\<rparr>)
       ex_atoms [0, 2] 7 ''MFI'' ''merw'' ''out'' =
     Returned (ex_sys\<lparr>files := (files ex_sys)(c_str (fname ''out'' ''MFI'' ''merw'' 7) \<mapsto>
         unlines ((header_lines (num_put milli ff_fixed 3) (dmul milli) ex_globals (date_buffer ex_sys)
               (username ex_sys) ''MFI'')
             [3 := ''_audit_creation_date 2024-01-16'']
           @ atom_rows (num_put milli ff_fixed 3) [0, 2] (- 1) 1
               (take (nat (Natoms ex_globals)) ex_atoms))),
       date_buffer := ''2024-01-16''\<rparr>)"
proof -
  have h: "Natoms ex_globals \<le> int (length ex_atoms)"
    by (simp add: ex_Natoms)
  have d: "''_audit_creation_date '' @ ''2024-01-16'' = ''_audit_creation_date 2024-01-16''"
    by simp
  note t = rerun_changes_date_only [OF ex_openable h, where P = milli and Als = "[0, 2]"
      and d = "''2024-01-16''", THEN conjunct2, unfolded d]
  show ?thesis
    by (rule conjI ex_openable h t)+
qed

text \<open>
  C10. The outcome of a call is the same whatever \<open>Tatoms\<close> holds. The elements of \<open>Als\<close>
  are compared with a counter that runs from 0 over the Si atoms among the \<open>Natoms\<close> atoms
  visited: after any part \<open>xs\<close> of the array the counter \<open>Tat\<close> is the number of Si atoms of
  \<open>xs\<close> less one, and a Si atom \<open>s\<close> that follows \<open>xs\<close> is written as an aluminium row exactly
  when the number of Si atoms of \<open>xs\<close>, its zero-based rank, is an element of \<open>Als\<close>; its
  label counts the ranks in \<open>Als\<close> so far. So the elements from 0 up to, and not including,
  the number of Si atoms visited are the ones with an effect: the call with all other
  elements dropped from \<open>Als\<close> has the same outcome, whatever \<open>Tatoms\<close> says.
\<close>

theorem Tatoms_never_read:
  "print_structure P (g\<lparr>Tatoms := t\<rparr>) w list Als struc name_zeo name_alg out_name =
     print_structure P g w list Als struc name_zeo name_alg out_name
   \<and> fst (snd (atoms_loop P Als xs (os, - 1, alcount))) = int (count_Si xs) - 1
   \<and> print_structure P g w list
       (filter (\<lambda>v. 0 \<le> v \<and> v < int (count_Si (take (nat (Natoms g)) list))) Als)
       struc name_zeo name_alg out_name =
     print_structure P g w list Als struc name_zeo name_alg out_name
   \<and> (openable w (c_str (fname out_name name_zeo name_alg struc))
        \<and> Natoms g = int (length (xs @ s # ys)) \<and> atom_id s = ''Si''
      \<longrightarrow> print_structure P (g\<lparr>Tatoms := t\<rparr>) w (xs @ s # ys) Als struc name_zeo name_alg out_name =
          Returned (w\<lparr>files := (files w)(c_str (fname out_name name_zeo name_alg struc) \<mapsto>
            unlines (header_lines (num_put P ff_fixed 3) (dmul P) g (date_buffer w) (username w) name_zeo
              @ atom_rows (num_put P ff_fixed 3) Als (- 1) 1 xs
              @ [if int (count_Si xs) \<in> set Als
                 then al_row (num_put P ff_fixed 3)
                   (''Al'' @ to_string (1 + int (length (filter (\<lambda>k. int k \<in> set Als) [0..<count_Si xs])))) s
                 else atom_row (num_put P ff_fixed 3) s]
              @ atom_rows (num_put P ff_fixed 3) Als (int (count_Si xs))
                  (1 + int (length (filter (\<lambda>k. int k \<in> set Als) [0..<Suc (count_Si xs)]))) ys))\<rparr>))"
proof -
  have a: "print_structure P (g\<lparr>Tatoms := t\<rparr>) w list Als struc name_zeo name_alg out_name =
     print_structure P g w list Als struc name_zeo name_alg out_name" for list
    by (simp add: print_structure_def write_cif_def put_header_def Let_def)
  have b: "print_structure P g w list
       (filter (\<lambda>v. 0 \<le> v \<and> v < int (count_Si (take (nat (Natoms g)) list))) Als)
       struc name_zeo name_alg out_name =
     print_structure P g w list Als struc name_zeo name_alg out_name"
    by (rule print_structure_range) auto
  have c: "print_structure P g w (xs @ s # ys) Als struc name_zeo name_alg out_name =
          Returned (w\<lparr>files := (files w)(c_str (fname out_name name_zeo name_alg struc) \<mapsto>
            unlines (header_lines (num_put P ff_fixed 3) (dmul P) g (date_buffer w) (username w) name_zeo
              @ atom_rows (num_put P ff_fixed 3) Als (- 1) 1 xs
              @ [if int (count_Si xs) \<in> set Als
                 then al_row (num_put P ff_fixed 3)
                   (''Al'' @ to_string (1 + int (length (filter (\<lambda>k. int k \<in> set Als) [0..<count_Si xs])))) s
                 else atom_row (num_put P ff_fixed 3) s]
              @ atom_rows (num_put P ff_fixed 3) Als (int (count_Si xs))
                  (1 + int (length (filter (\<lambda>k. int k \<in> set Als) [0..<Suc (count_Si xs)]))) ys))\<rparr>)"
    if "openable w (c_str (fname out_name name_zeo name_alg struc))"
      and "Natoms g = int (length (xs @ s # ys))" and "atom_id s = ''Si''"
    using that(1,2) print_structure_eq [OF that(1), of g "xs @ s # ys" P Als]
    by (simp add: rows_at_Si [OF that(3)])
  show ?thesis
    unfolding a using a b c by (simp add: atoms_loop_Tat)
qed


text \<open>
  On the sample array with \<open>Tatoms\<close> set to 99 and \<open>Als = [1, 5]\<close>: the second Si atom, of rank
  1, is relabelled, and the index 5 does nothing.
\<close>

theorem Tatoms_never_read_witness:
  "openable ex_sys (c_str (fname ''out'' ''MFI'' ''merw'' 7))
   \<and> Natoms ex_globals = int (length (take 2 ex_atoms @ ex_atoms ! 2 # drop 3 ex_atoms))
   \<and> atom_id (ex_atoms ! 2) = ''Si''
   \<and> Tatoms (ex_globals\<lparr>Tatoms := 99\<rparr>) = 99
   \<and> print_structure milli (ex_globals\<lparr>Tatoms := 99\<rparr>) ex_sys ex_atoms [1, 5] 7 ''MFI'' ''merw'' ''out'' =
     Returned (ex_sys\<lparr>files := (files ex_sys)(''out/MFI_merw_7.cif'' \<mapsto>
       unlines (header_lines (milli_put ff_fixed 3) (\<lambda>x y. x * y div 1000) ex_globals
           ''2024-01-15'' ''unknown_user'' ''MFI''
         @ [''T1        Si     0.100     0.200     0.300     1.200'',
            ''O1         O     0.400     0.500     0.600    -0.800'',
            ''Al1        Al     0.700     0.800     0.900     1.200'',
            ''T3        Si     0.250     0.750     0.500     1.200'']))\<rparr>)"
proof -
  have h2: "Natoms ex_globals = int (length (take 2 ex_atoms @ ex_atoms ! 2 # drop 3 ex_atoms))"
    by (simp add: ex_defs)
  have h3: "atom_id (ex_atoms ! 2) = ''Si''"
    by (simp add: ex_atoms_def)
  have l: "take 2 ex_atoms @ ex_atoms ! 2 # drop 3 ex_atoms = ex_atoms"
    by (simp add: ex_atoms_def)
  note t = Tatoms_never_read [where P = milli and g = ex_globals and w = ex_sys
      and xs = "take 2 ex_atoms" and s = "ex_atoms ! 2" and ys = "drop 3 ex_atoms" and t = 99
      and Als = "[1, 5]" and struc = 7 and name_zeo = "''MFI''" and name_alg = "''merw''"
      and out_name = "''out''", THEN conjunct2, THEN conjunct2, THEN conjunct2, rule_format,
      OF conjI [OF ex_openable conjI [OF h2 h3]], unfolded l]
  have n: "count_Si (take 2 ex_atoms) = 1"
    by (simp add: ex_atoms_def count_Si_def)
  have k0: "length (filter (\<lambda>k. int k \<in> set [1, 5]) [0..<1]) = 0"
    by simp
  have k1: "length (filter (\<lambda>k. int k \<in> set [1, 5]) [0..<Suc 1]) = 1"
    by simp
  have m: "int 1 \<in> set [1, 5]"
    by simp
  have one: "1 + int 0 = 1" "1 + int 1 = 2"
    by simp_all
  note t' = t [unfolded n k0 k1 one to_string_1, simplified m if_True]
  have before: "atom_rows (milli_put ff_fixed 3) [1, 5] (- 1) 1 (take 2 ex_atoms) =
      [''T1        Si     0.100     0.200     0.300     1.200'',
       ''O1         O     0.400     0.500     0.600    -0.800'']"
    by (simp add: ex_defs atom_row_def milli_put_def pad_def replicate_numeral)
  have after: "atom_rows (milli_put ff_fixed 3) [1, 5] 1 2 (drop 3 ex_atoms) =
      [''T3        Si     0.250     0.750     0.500     1.200'']"
    by (simp add: ex_defs atom_row_def milli_put_def pad_def replicate_numeral)
  have row: "al_row (milli_put ff_fixed 3) ''Al1'' (ex_atoms ! 2) =
      ''Al1        Al     0.700     0.800     0.900     1.200''"
    by (simp add: ex_defs al_row_def milli_put_def pad_def replicate_numeral)
  have p: "c_str (fname ''out'' ''MFI'' ''merw'' 7) = ''out/MFI_merw_7.cif''"
    by (simp add: ex_defs)
  have e: "date_buffer ex_sys = ''2024-01-15''" "username ex_sys = ''unknown_user''"
      "num_put milli = milli_put" "dmul milli = (\<lambda>x y. x * y div 1000)"
    by (simp_all add: ex_sys_def username_def milli_def)
  have "print_structure milli (ex_globals\<lparr>Tatoms := 99\<rparr>) ex_sys ex_atoms [1, 5] 7 ''MFI'' ''merw'' ''out'' =
     Returned (ex_sys\<lparr>files := (files ex_sys)(''out/MFI_merw_7.cif'' \<mapsto>
       unlines (header_lines (milli_put ff_fixed 3) (\<lambda>x y. x * y div 1000) ex_globals
           ''2024-01-15'' ''unknown_user'' ''MFI''
         @ [''T1        Si     0.100     0.200     0.300     1.200'',
            ''O1         O     0.400     0.500     0.600    -0.800'',
            ''Al1        Al     0.700     0.800     0.900     1.200'',
            ''T3        Si     0.250     0.750     0.500     1.200'']))\<rparr>)"
    using t' by (simp add: before after row p e)
  moreover have "Tatoms (ex_globals\<lparr>Tatoms := 99\<rparr>) = 99"
    by simp
  ultimately show ?thesis
    using ex_openable h2 h3 by blast
qed

end
